theory Spec2Isabelle
  imports Main
begin

section \<open>The chat application of \<^verbatim>\<open>src/app.py\<close>\<close>

text \<open>
  The program is a Streamlit script. Document loading, text splitting, the vector store and
  the conversational retrieval chain are calls into third-party libraries; the code of the
  repository itself is the turn function \<^verbatim>\<open>conversation_chat\<close>, the session
  initialisation, the form handling with the transcript renderer, and \<^verbatim>\<open>main\<close>.

  Library objects are parameters of the model. Everything outside the session state that a
  library call may read or change (files, models, the chain's own buffer memory, sampling)
  is one opaque state of type \<open>'c\<close>, threaded through every library call. An exception
  raised by a library call is a value of type \<open>'e\<close>.
\<close>

subsection \<open>Errors\<close>

text \<open>
  \<open>Raised\<close> is an exception coming out of a library call; \<open>KeyError\<close> is a lookup of a
  missing key of \<^verbatim>\<open>st.session_state\<close>; \<open>IndexError\<close> is a list index out of range.
\<close>

datatype 'e error = Raised 'e | KeyError string | IndexError

subsection \<open>The chain and one turn\<close>

text \<open>A recorded turn is the tuple \<^verbatim>\<open>(query, result["answer"])\<close>.\<close>

type_synonym turn = "string \<times> string"

text \<open>
  The call \<^verbatim>\<open>chain({"question": query, "chat_history": history})\<close>: it reads the
  question and the history list, and either raises or returns a result whose
  \<^verbatim>\<open>"answer"\<close> entry is a string. The history list is an input of the call; the
  only statement of the program that changes it is the \<^verbatim>\<open>append\<close> of
  \<^verbatim>\<open>conversation_chat\<close>.
\<close>

type_synonym ('c, 'e) chain = "'c \<Rightarrow> string \<Rightarrow> turn list \<Rightarrow> ('e + string) \<times> 'c"

text \<open>
  \<^verbatim>\<open>
  def conversation_chat(chain, query, history):
      result = chain({"question": query, "chat_history": history})
      history.append((query, result["answer"]))
      return result["answer"]
  \<close>
  The result is the returned answer or the exception, the state of the libraries after the
  call, and the history list after the call.
\<close>

definition conversation_chat ::
  "('c, 'e) chain \<Rightarrow> string \<Rightarrow> turn list \<Rightarrow> 'c \<Rightarrow> ('e error + string) \<times> 'c \<times> turn list" where
  "conversation_chat chain query history c =
     (case chain c query history of
        (Inl e, c') \<Rightarrow> (Inl (Raised e), c', history)
      | (Inr answer, c') \<Rightarrow> (Inr answer, c', history @ [(query, answer)]))"

text \<open>
  Calls made one after the other on the same history list, each on the list the previous
  one left; a call that raised leaves the caller free to call again.
\<close>

fun chat_turns ::
  "('c, 'e) chain \<Rightarrow> string list \<Rightarrow> turn list \<Rightarrow> 'c \<Rightarrow> ('e error + string) list \<times> 'c \<times> turn list" where
  "chat_turns chain [] history c = ([], c, history)"
| "chat_turns chain (q # qs) history c =
     (case conversation_chat chain q history c of
        (r, c', history') \<Rightarrow>
          (case chat_turns chain qs history' c' of
             (rs, c'', history'') \<Rightarrow> (r # rs, c'', history'')))"

subsection \<open>Session state\<close>

text \<open>
  The three keys of \<^verbatim>\<open>st.session_state\<close> the script uses. A key that is not in the
  dictionary is \<open>None\<close>.
\<close>

record session_state =
  history :: "turn list option"
  generated :: "string list option"
  past :: "string list option"

definition empty_session :: session_state where
  "empty_session = \<lparr>history = None, generated = None, past = None\<rparr>"

text \<open>
  The two greeting literals, as the bytes of the source file: the text is followed by a
  space and the non-ASCII characters of the literal in UTF-8.
\<close>

definition greeting_generated :: string where
  "greeting_generated = ''Hey! Ask me about Science Technology & Ethics '' @
     [CHR 0xC3, CHR 0xB0, CHR 0xC5, CHR 0xB8, CHR 0xC2, CHR 0xA4, CHR 0xE2, CHR 0x80, CHR 0x94]"

definition greeting_past :: string where
  "greeting_past = ''Hey! '' @
     [CHR 0xC3, CHR 0xB0, CHR 0xC5, CHR 0xB8, CHR 0xE2, CHR 0x80, CHR 0x98, CHR 0xE2, CHR 0x80, CHR 0xB9]"

text \<open>
  \<^verbatim>\<open>
  def initialize_session_state():
      if 'history' not in st.session_state:
          st.session_state['history'] = []
      if 'generated' not in st.session_state:
          st.session_state['generated'] = ["Hey! Ask me about ..."]
      if 'past' not in st.session_state:
          st.session_state['past'] = ["Hey! ..."]
  \<close>
\<close>

definition initialize_session_state :: "session_state \<Rightarrow> session_state" where
  "initialize_session_state s =
     (let s1 = (if history s = None then s\<lparr>history := Some []\<rparr> else s);
          s2 = (if generated s1 = None then s1\<lparr>generated := Some [greeting_generated]\<rparr> else s1);
          s3 = (if past s2 = None then s2\<lparr>past := Some [greeting_past]\<rparr> else s2)
      in s3)"

subsection \<open>The transcript\<close>

text \<open>Python's \<^verbatim>\<open>str(i)\<close> for an index \<open>i \<ge> 0\<close>: the decimal digits.\<close>

fun str :: "nat \<Rightarrow> string" where
  "str n = (if n < 10 then [char_of (48 + n)] else str (n div 10) @ [char_of (48 + n mod 10)])"

declare str.simps [simp del]

text \<open>One call of \<^verbatim>\<open>message(text, is_user=..., key=..., avatar_style=...)\<close>.\<close>

datatype message = Message (msg_text: string) (is_user: bool) (msg_key: string) (avatar_style: string)

text \<open>
  \<^verbatim>\<open>
  for i in range(len(st.session_state['generated'])):
      message(st.session_state["past"][i], is_user=True, key=str(i) + '_user', avatar_style="thumbs")
      message(st.session_state["generated"][i], key=str(i), avatar_style="fun-emoji")
  \<close>
  The loop over the indices; an index past the end of a list raises \<open>IndexError\<close>.
\<close>

fun reply_messages :: "session_state \<Rightarrow> nat list \<Rightarrow> 'e error + message list" where
  "reply_messages s [] = Inr []"
| "reply_messages s (i # is) =
     (case past s of
        None \<Rightarrow> Inl (KeyError ''past'')
      | Some p \<Rightarrow>
          if length p \<le> i then Inl IndexError
          else (case generated s of
              None \<Rightarrow> Inl (KeyError ''generated'')
            | Some g \<Rightarrow>
                if length g \<le> i then Inl IndexError
                else (case reply_messages s is of
                    Inl e \<Rightarrow> Inl e
                  | Inr ms \<Rightarrow>
                      Inr (Message (p ! i) True (str i @ ''_user'') ''thumbs''
                         # Message (g ! i) False (str i) ''fun-emoji'' # ms))))"

text \<open>
  Lines 62 to 66 of \<^verbatim>\<open>display_chat_history\<close>:
  \<^verbatim>\<open>
  if st.session_state['generated']:
      with reply_container:
          for i in range(len(st.session_state['generated'])): ...
  \<close>
\<close>

definition render_replies :: "session_state \<Rightarrow> 'e error + message list" where
  "render_replies s =
     (case generated s of
        None \<Rightarrow> Inl (KeyError ''generated'')
      | Some g \<Rightarrow> if g \<noteq> [] then reply_messages s [0..<length g] else Inr [])"

subsection \<open>Handling the form\<close>

text \<open>
  \<^verbatim>\<open>
  def display_chat_history(chain):
      ...
      user_input = st.text_input(...)
      submit_button = st.form_submit_button(label='Send')
      if submit_button and user_input:
          output = conversation_chat(chain, user_input, st.session_state['history'])
          st.session_state['past'].append(user_input)
          st.session_state['generated'].append(output)
      if st.session_state['generated']: ...
  \<close>
  The two widget values are inputs of the run. The history list is passed by reference, so
  the append of \<^verbatim>\<open>conversation_chat\<close> changes the list stored under
  \<^verbatim>\<open>'history'\<close>. An exception ends the run with the session state as it is then.
\<close>

definition display_chat_history ::
  "('c, 'e) chain \<Rightarrow> bool \<Rightarrow> string \<Rightarrow> 'c \<times> session_state
     \<Rightarrow> ('e error + message list) \<times> 'c \<times> session_state" where
  "display_chat_history chain submit_button user_input cs =
     (case cs of (c, s) \<Rightarrow>
        if submit_button \<and> user_input \<noteq> [] then
          (case history s of
             None \<Rightarrow> (Inl (KeyError ''history''), c, s)
           | Some h \<Rightarrow>
               (case conversation_chat chain user_input h c of
                  (Inl e, c', h') \<Rightarrow> (Inl e, c', s\<lparr>history := Some h'\<rparr>)
                | (Inr output, c', h') \<Rightarrow>
                    (let s1 = s\<lparr>history := Some h'\<rparr> in
                     case past s1 of
                       None \<Rightarrow> (Inl (KeyError ''past''), c', s1)
                     | Some p \<Rightarrow>
                         (let s2 = s1\<lparr>past := Some (p @ [user_input])\<rparr> in
                          case generated s2 of
                            None \<Rightarrow> (Inl (KeyError ''generated''), c', s2)
                          | Some g \<Rightarrow>
                              (let s3 = s2\<lparr>generated := Some (g @ [output])\<rparr>
                               in (render_replies s3, c', s3))))))
        else (render_replies s, c, s))"

subsection \<open>One run of the script and a session\<close>

text \<open>
  \<^verbatim>\<open>
  def main():
      st.title("Encyclopedia Bot")
      documents = load_documents()
      text_chunks = create_text_chunks(documents)
      vector_store = create_vector_store(text_chunks)
      chain = create_llm_chain(vector_store)
      initialize_session_state()
      display_chat_history(chain)
  \<close>
  The four library calls that build the chain are the parameter \<open>pipeline\<close>: it raises or
  returns the chain.
\<close>

type_synonym ('c, 'e) pipeline = "'c \<Rightarrow> ('e + ('c, 'e) chain) \<times> 'c"

definition main ::
  "('c, 'e) pipeline \<Rightarrow> bool \<Rightarrow> string \<Rightarrow> 'c \<times> session_state
     \<Rightarrow> ('e error + message list) \<times> 'c \<times> session_state" where
  "main pipeline submit_button user_input cs =
     (case cs of (c, s) \<Rightarrow>
        (case pipeline c of
           (Inl e, c') \<Rightarrow> (Inl (Raised e), c', s)
         | (Inr chain, c') \<Rightarrow>
             display_chat_history chain submit_button user_input (c', initialize_session_state s)))"

text \<open>
  Streamlit runs the script once for every interaction and keeps the session state from
  one run to the next. An interaction is the pair of widget values of that run.
\<close>

fun session ::
  "('c, 'e) pipeline \<Rightarrow> (bool \<times> string) list \<Rightarrow> 'c \<times> session_state \<Rightarrow> 'c \<times> session_state" where
  "session pipeline [] cs = cs"
| "session pipeline (ev # evs) cs =
     (case main pipeline (fst ev) (snd ev) cs of (r, c', s') \<Rightarrow> session pipeline evs (c', s'))"

subsection \<open>Concrete chains for running the model\<close>

text \<open>
  Three stand-ins for the library chain, with a call counter as the state of the libraries:
  one that answers every question, one that always raises, and one that raises on the
  question \<open>''boom''\<close> only. \<open>echo_pipeline\<close> builds the last one without failing.
\<close>

definition echo_chain :: "(nat, string) chain" where
  "echo_chain c q h = (Inr (''re: '' @ q), Suc c)"

definition failing_chain :: "(nat, string) chain" where
  "failing_chain c q h = (Inl ''GenerationError'', Suc c)"

definition moody_chain :: "(nat, string) chain" where
  "moody_chain c q h = (if q = ''boom'' then failing_chain c q h else echo_chain c q h)"

definition echo_pipeline :: "(nat, string) pipeline" where
  "echo_pipeline c = (Inr moody_chain, c)"

section \<open>Properties\<close>

subsection \<open>A failed turn leaves the history alone\<close>

text \<open>
  Claim C5. If the chain raises during a turn, \<^verbatim>\<open>conversation_chat\<close> raises with the
  history list exactly as it was before the call: nothing is appended. Seen from the form
  handler, a submitted non-empty question whose turn raises leaves the whole session state
  (\<open>history\<close>, \<open>past\<close>, \<open>generated\<close>) unchanged.
\<close>

theorem failed_turn_keeps_history:
  assumes "chain c query h = (Inl e, c')"
  shows "conversation_chat chain query h c = (Inl (Raised e), c', h)
       \<and> (history s = Some h \<longrightarrow> query \<noteq> [] \<longrightarrow>
            display_chat_history chain True query (c, s) = (Inl (Raised e), c', s))"
  using assms by (simp add: conversation_chat_def display_chat_history_def)

theorem failed_turn_keeps_history_witness:
  "failing_chain 0 ''why?'' [(''a'', ''b'')] = (Inl ''GenerationError'', 1)
   \<and> conversation_chat failing_chain ''why?'' [(''a'', ''b'')] 0
       = (Inl (Raised ''GenerationError''), 1, [(''a'', ''b'')])
   \<and> display_chat_history failing_chain True ''why?''
         (0, \<lparr>history = Some [(''a'', ''b'')], generated = Some [''hi'', ''b''], past = Some [''hey'', ''a'']\<rparr>)
       = (Inl (Raised ''GenerationError''), 1,
          \<lparr>history = Some [(''a'', ''b'')], generated = Some [''hi'', ''b''], past = Some [''hey'', ''a'']\<rparr>)"
  using failed_turn_keeps_history [of failing_chain 0 "''why?''" "[(''a'', ''b'')]" "''GenerationError''" 1
      "\<lparr>history = Some [(''a'', ''b'')], generated = Some [''hi'', ''b''], past = Some [''hey'', ''a'']\<rparr>"]
  by (simp add: failing_chain_def)

subsection \<open>Successful turns are appended in call order\<close>

lemma chat_turns_length: "chat_turns chain qs h c = (rs, c', h') \<Longrightarrow> length rs = length qs"
  by (induction qs arbitrary: h c rs) (auto split: prod.splits)

lemma chat_turns_append:
  "chat_turns chain (qs1 @ qs2) h c =
     (case chat_turns chain qs1 h c of
        (rs1, c1, h1) \<Rightarrow>
          (case chat_turns chain qs2 h1 c1 of (rs2, c2, h2) \<Rightarrow> (rs1 @ rs2, c2, h2)))"
  by (induction qs1 arbitrary: h c) (auto split: prod.splits)

lemma chat_turns_all_Inr:
  "chat_turns chain qs h0 c = (map Inr as, c', h) \<Longrightarrow> h = h0 @ zip qs as \<and> length as = length qs"
proof (induction qs arbitrary: h0 c as c')
  case Nil
  then show ?case by simp
next
  case (Cons q qs)
  obtain r c1 h1 where step: "conversation_chat chain q h0 c = (r, c1, h1)"
    by (cases "conversation_chat chain q h0 c") auto
  obtain rs c2 h2 where rest: "chat_turns chain qs h1 c1 = (rs, c2, h2)"
    by (cases "chat_turns chain qs h1 c1") auto
  from Cons.prems step rest have eq: "r # rs = map Inr as" and h2: "h2 = h"
    by simp_all
  then obtain a as' where as: "as = a # as'" and r: "r = Inr a" and rs: "rs = map Inr as'"
    by (cases as) auto
  from step r have h1: "h1 = h0 @ [(q, a)]"
    by (auto simp: conversation_chat_def split: prod.splits sum.splits)
  from Cons.IH [of h1 c1 as' c2] rest rs h2 have "h = h1 @ zip qs as' \<and> length as' = length qs"
    by simp
  with h1 as show ?case by simp
qed

lemma chat_turns_prefix_history:
  assumes "chat_turns chain qs h0 c = (map Inr as, c', h)" and "n \<le> length qs"
  shows "snd (snd (chat_turns chain (take n qs) h0 c)) = h0 @ take n (zip qs as)"
proof -
  obtain rs1 c1 h1 where first: "chat_turns chain (take n qs) h0 c = (rs1, c1, h1)"
    by (cases "chat_turns chain (take n qs) h0 c") auto
  obtain rs2 c2 h2 where rest: "chat_turns chain (drop n qs) h1 c1 = (rs2, c2, h2)"
    by (cases "chat_turns chain (drop n qs) h1 c1") auto
  have "chat_turns chain (take n qs @ drop n qs) h0 c = (rs1 @ rs2, c2, h2)"
    by (simp only: chat_turns_append first rest prod.case)
  with assms(1) have all: "rs1 @ rs2 = map Inr as"
    by simp
  have len: "length rs1 = n"
    using chat_turns_length [OF first] assms(2) by simp
  from all have "take n (rs1 @ rs2) = take n (map Inr as)"
    by simp
  with len have "rs1 = map Inr (take n as)"
    by (simp add: take_map)
  with first have "h1 = h0 @ zip (take n qs) (take n as)"
    using chat_turns_all_Inr [of chain "take n qs" h0 c "take n as" c1 h1] by simp
  with first show ?thesis
    by (simp add: take_zip)
qed

text \<open>
  Claim C6. Starting from the empty history, after \<open>n\<close> calls of
  \<^verbatim>\<open>conversation_chat\<close> that all returned (answers \<open>as\<close> to the questions \<open>qs\<close>), the
  history has length \<open>n\<close> and holds the pairs (question, answer) in call order. The program
  stores plain tuples: the number of a turn is its position in the list, so the numbers are
  \<open>0, 1, ..., n - 1\<close> in this order, the turn of call \<open>i\<close> at position \<open>i\<close>. The history
  after the first \<open>k\<close> calls is the first \<open>k\<close> entries of the final history: entries are only
  added at the end, never moved or removed.
\<close>

theorem successful_turns_history:
  assumes "chat_turns chain qs [] c = (map Inr as, c', h)"
  shows "length h = length qs \<and> h = zip qs as
       \<and> (\<forall>i<length qs. h ! i = (qs ! i, as ! i))
       \<and> (\<forall>k\<le>length qs. snd (snd (chat_turns chain (take k qs) [] c)) = take k h)"
proof -
  from chat_turns_all_Inr [OF assms] have h: "h = zip qs as" and len: "length as = length qs"
    by simp_all
  have "\<forall>k\<le>length qs. snd (snd (chat_turns chain (take k qs) [] c)) = take k h"
    using chat_turns_prefix_history [OF assms] h by simp
  with h len show ?thesis by simp
qed

theorem successful_turns_history_witness:
  "chat_turns echo_chain [''a'', ''b''] [] 0
     = (map Inr [''re: a'', ''re: b''], 2, [(''a'', ''re: a''), (''b'', ''re: b'')])
   \<and> length [(''a'', ''re: a''), (''b'', ''re: b'')] = length [''a'', ''b'']
   \<and> [(''a'', ''re: a''), (''b'', ''re: b'')] ! 1 = ([''a'', ''b''] ! 1, [''re: a'', ''re: b''] ! 1)
   \<and> snd (snd (chat_turns echo_chain (take 1 [''a'', ''b'']) [] 0))
       = take 1 [(''a'', ''re: a''), (''b'', ''re: b'')]"
proof -
  have run: "chat_turns echo_chain [''a'', ''b''] [] 0
      = (map Inr [''re: a'', ''re: b''], 2, [(''a'', ''re: a''), (''b'', ''re: b'')])"
    by (simp add: echo_chain_def conversation_chat_def)
  from successful_turns_history [OF run] run show ?thesis
    by (simp add: echo_chain_def conversation_chat_def)
qed

subsection \<open>No turn without a submitted, non-empty question\<close>

text \<open>
  Claim C10. The turn is guarded by \<^verbatim>\<open>if submit_button and user_input\<close>. When the button
  was not pressed or the input is the empty string, the form handler only renders the
  transcript: the session state is returned as it was, the state of the libraries is
  returned as it was, and the result does not depend on the chain, which is not called.
\<close>

theorem no_turn_without_input:
  assumes "\<not> (submit_button \<and> user_input \<noteq> [])"
  shows "display_chat_history chain submit_button user_input (c, s) = (render_replies s, c, s)"
  using assms by (auto simp add: display_chat_history_def)

theorem no_turn_without_input_witness:
  "\<not> (True \<and> ([] :: string) \<noteq> [])
   \<and> display_chat_history echo_chain True [] (0, initialize_session_state empty_session)
       = (render_replies (initialize_session_state empty_session), 0,
          initialize_session_state empty_session)
   \<and> display_chat_history failing_chain False ''why?'' (0, initialize_session_state empty_session)
       = (render_replies (initialize_session_state empty_session), 0,
          initialize_session_state empty_session)"
  using no_turn_without_input [of True "[]" echo_chain 0 "initialize_session_state empty_session"]
    no_turn_without_input [of False "''why?''" failing_chain 0 "initialize_session_state empty_session"]
  by simp

subsection \<open>The two transcript lists stay paired\<close>

lemma initialize_empty_session:
  "initialize_session_state empty_session
     = \<lparr>history = Some [], generated = Some [greeting_generated], past = Some [greeting_past]\<rparr>"
  by (simp add: initialize_session_state_def empty_session_def)

lemma initialize_present:
  "history s = Some h \<Longrightarrow> generated s = Some g \<Longrightarrow> past s = Some p \<Longrightarrow> initialize_session_state s = s"
  by (simp add: initialize_session_state_def)

lemma str_0: "str 0 = ''0''"
  by code_simp

lemma reply_messages_in_range:
  fixes s :: session_state
  assumes "past s = Some p" and "generated s = Some g"
  shows "\<forall>i\<in>set ixs. i < length p \<and> i < length g
         \<Longrightarrow> \<exists>ms. (reply_messages s ixs :: 'e error + message list) = Inr ms \<and> length ms = 2 * length ixs"
proof (induction ixs)
  case Nil
  then show ?case by simp
next
  case (Cons i ixs)
  then obtain ms where "(reply_messages s ixs :: 'e error + message list) = Inr ms"
      and "length ms = 2 * length ixs"
    by auto
  with Cons.prems assms show ?case by simp
qed

lemma render_replies_paired:
  fixes s :: session_state
  assumes "past s = Some (gp # p)" and "generated s = Some (gg # g)" and "length p = length g"
  shows "\<exists>ms. (render_replies s :: 'e error + message list)
            = Inr (Message gp True ''0_user'' ''thumbs'' # Message gg False ''0'' ''fun-emoji'' # ms)
          \<and> length ms = 2 * length g"
proof -
  have "\<forall>i\<in>set [Suc 0..<Suc (length g)]. i < length (gp # p) \<and> i < length (gg # g)"
    using assms(3) by auto
  from reply_messages_in_range [OF assms(1,2) this]
  obtain ms where ms: "(reply_messages s [Suc 0..<Suc (length g)] :: 'e error + message list) = Inr ms"
      and len: "length ms = 2 * length [Suc 0..<Suc (length g)]"
    by blast
  have "[0..<Suc (length g)] = 0 # [Suc 0..<Suc (length g)]"
    by (rule upt_conv_Cons) simp
  with ms len assms show ?thesis
    by (simp add: render_replies_def str_0 del: upt_Suc)
qed

lemma display_chat_history_paired:
  assumes "history s = Some h" and "past s = Some (greeting_past # map fst h)"
    and "generated s = Some (greeting_generated # map snd h)"
    and "display_chat_history chain b u (c, s) = (r, c', s')"
  shows "\<exists>h'. history s' = Some h' \<and> past s' = Some (greeting_past # map fst h')
            \<and> generated s' = Some (greeting_generated # map snd h')"
  using assms
  by (auto simp: display_chat_history_def conversation_chat_def Let_def
      split: if_splits prod.splits sum.splits)

lemma main_paired:
  assumes "history s = Some h" and "past s = Some (greeting_past # map fst h)"
    and "generated s = Some (greeting_generated # map snd h)"
    and "main pipeline b u (c, s) = (r, c', s')"
  shows "\<exists>h'. history s' = Some h' \<and> past s' = Some (greeting_past # map fst h')
            \<and> generated s' = Some (greeting_generated # map snd h')"
proof (cases "pipeline c")
  case (Pair x c1)
  show ?thesis
  proof (cases x)
    case (Inl e)
    with Pair assms show ?thesis by (simp add: main_def)
  next
    case (Inr chain)
    with Pair assms(4) initialize_present [OF assms(1,3,2)]
    have "display_chat_history chain b u (c1, s) = (r, c', s')"
      by (simp add: main_def)
    from display_chat_history_paired [OF assms(1,2,3) this] show ?thesis .
  qed
qed

lemma session_paired:
  assumes "history s = Some h" and "past s = Some (greeting_past # map fst h)"
    and "generated s = Some (greeting_generated # map snd h)"
    and "session pipeline evs (c, s) = (c', s')"
  shows "\<exists>h'. history s' = Some h' \<and> past s' = Some (greeting_past # map fst h')
            \<and> generated s' = Some (greeting_generated # map snd h')"
  using assms
proof (induction evs arbitrary: c s h)
  case Nil
  then show ?case by simp
next
  case (Cons ev evs)
  obtain r c1 s1 where step: "main pipeline (fst ev) (snd ev) (c, s) = (r, c1, s1)"
    by (cases "main pipeline (fst ev) (snd ev) (c, s)") auto
  from main_paired [OF Cons.prems(1,2,3) step]
  obtain h1 where h1: "history s1 = Some h1" "past s1 = Some (greeting_past # map fst h1)"
      "generated s1 = Some (greeting_generated # map snd h1)"
    by blast
  from Cons.prems(4) step have "session pipeline evs (c1, s1) = (c', s')"
    by simp
  from Cons.IH [OF h1 this] show ?case .
qed

lemma main_answered:
  assumes "history s = Some h" and "past s = Some p" and "generated s = Some g"
    and "pipeline c = (Inr chain, c1)" and "u \<noteq> []" and "chain c1 u h = (Inr a, c2)"
  shows "snd (snd (main pipeline True u (c, s)))
           = s\<lparr>history := Some (h @ [(u, a)]), past := Some (p @ [u]), generated := Some (g @ [a])\<rparr>"
  using assms initialize_present [OF assms(1,3,2)]
  by (simp add: main_def display_chat_history_def conversation_chat_def Let_def)

lemma main_raised:
  assumes "history s = Some h" and "past s = Some p" and "generated s = Some g"
    and "pipeline c = (Inr chain, c1)" and "chain c1 u h = (Inl e, c2)"
  shows "snd (snd (main pipeline b u (c, s))) = s"
  using assms initialize_present [OF assms(1,3,2)]
  by (simp add: main_def display_chat_history_def conversation_chat_def)

text \<open>
  Claim C9. On a fresh session, initialisation stores one greeting in \<open>generated\<close> and one
  in \<open>past\<close>. After any number of runs of the script on the initialised session, whatever
  the widget values and whether the library calls returned or raised, the two lists have the
  same length: \<open>past\<close> is its greeting followed by the questions of the history and
  \<open>generated\<close> is its greeting followed by the answers of the history. The renderer
  therefore never indexes out of range, and the transcript starts with the greeting pair,
  under the keys \<open>0_user\<close> and \<open>0\<close>. A submitted non-empty question that the chain
  answers appends exactly one element to each list; one on which the chain raises appends
  nothing to either.
\<close>

theorem transcript_lists_paired:
  fixes pipeline :: "('c, 'e) pipeline"
  assumes "session pipeline evs (c, initialize_session_state empty_session) = (c', s)"
  shows "generated (initialize_session_state empty_session) = Some [greeting_generated]
       \<and> past (initialize_session_state empty_session) = Some [greeting_past]
       \<and> (\<exists>h p g. history s = Some h \<and> past s = Some p \<and> generated s = Some g
            \<and> length p = length g
            \<and> p = greeting_past # map fst h \<and> g = greeting_generated # map snd h
            \<and> (\<exists>ms. (render_replies s :: 'e error + message list)
                  = Inr (Message greeting_past True ''0_user'' ''thumbs''
                       # Message greeting_generated False ''0'' ''fun-emoji'' # ms)
                  \<and> length ms = 2 * length h)
            \<and> (\<forall>chain c1 u a c2. pipeline c' = (Inr chain, c1) \<longrightarrow> u \<noteq> [] \<longrightarrow>
                  chain c1 u h = (Inr a, c2) \<longrightarrow>
                  snd (snd (main pipeline True u (c', s)))
                    = s\<lparr>history := Some (h @ [(u, a)]), past := Some (p @ [u]),
                        generated := Some (g @ [a])\<rparr>)
            \<and> (\<forall>chain c1 u e c2. pipeline c' = (Inr chain, c1) \<longrightarrow>
                  chain c1 u h = (Inl e, c2) \<longrightarrow>
                  snd (snd (main pipeline True u (c', s))) = s))"
proof -
  let ?s0 = "initialize_session_state empty_session"
  have s0: "history ?s0 = Some []" "past ?s0 = Some (greeting_past # map fst [])"
      "generated ?s0 = Some (greeting_generated # map snd [])"
    by (simp_all add: initialize_empty_session)
  have A: "generated ?s0 = Some [greeting_generated]" and B: "past ?s0 = Some [greeting_past]"
    by (simp_all add: initialize_empty_session)
  from session_paired [OF s0 assms]
  obtain h where h: "history s = Some h" "past s = Some (greeting_past # map fst h)"
      "generated s = Some (greeting_generated # map snd h)"
    by blast
  let ?p = "greeting_past # map fst h" and ?g = "greeting_generated # map snd h"
  have len: "length ?p = length ?g"
    by simp
  have "length (map fst h) = length (map snd h)"
    by simp
  from render_replies_paired [OF h(2,3) this]
  have ms: "\<exists>ms. (render_replies s :: 'e error + message list)
        = Inr (Message greeting_past True ''0_user'' ''thumbs''
             # Message greeting_generated False ''0'' ''fun-emoji'' # ms)
        \<and> length ms = 2 * length h"
    by simp
  have ok: "\<forall>chain c1 u a c2. pipeline c' = (Inr chain, c1) \<longrightarrow> u \<noteq> [] \<longrightarrow>
        chain c1 u h = (Inr a, c2) \<longrightarrow>
        snd (snd (main pipeline True u (c', s)))
          = s\<lparr>history := Some (h @ [(u, a)]), past := Some (?p @ [u]),
              generated := Some (?g @ [a])\<rparr>"
  proof (intro allI impI)
    fix chain c1 u a c2
    assume "pipeline c' = (Inr chain, c1)" and "u \<noteq> []" and "chain c1 u h = (Inr a, c2)"
    then show "snd (snd (main pipeline True u (c', s)))
          = s\<lparr>history := Some (h @ [(u, a)]), past := Some (?p @ [u]),
              generated := Some (?g @ [a])\<rparr>"
      by (rule main_answered [OF h])
  qed
  have ko: "\<forall>chain c1 u e c2. pipeline c' = (Inr chain, c1) \<longrightarrow>
        chain c1 u h = (Inl e, c2) \<longrightarrow> snd (snd (main pipeline True u (c', s))) = s"
  proof (intro allI impI)
    fix chain c1 u e c2
    assume "pipeline c' = (Inr chain, c1)" and "chain c1 u h = (Inl e, c2)"
    then show "snd (snd (main pipeline True u (c', s))) = s"
      by (rule main_raised [OF h])
  qed
  have C: "\<exists>h p g. history s = Some h \<and> past s = Some p \<and> generated s = Some g
            \<and> length p = length g
            \<and> p = greeting_past # map fst h \<and> g = greeting_generated # map snd h
            \<and> (\<exists>ms. (render_replies s :: 'e error + message list)
                  = Inr (Message greeting_past True ''0_user'' ''thumbs''
                       # Message greeting_generated False ''0'' ''fun-emoji'' # ms)
                  \<and> length ms = 2 * length h)
            \<and> (\<forall>chain c1 u a c2. pipeline c' = (Inr chain, c1) \<longrightarrow> u \<noteq> [] \<longrightarrow>
                  chain c1 u h = (Inr a, c2) \<longrightarrow>
                  snd (snd (main pipeline True u (c', s)))
                    = s\<lparr>history := Some (h @ [(u, a)]), past := Some (p @ [u]),
                        generated := Some (g @ [a])\<rparr>)
            \<and> (\<forall>chain c1 u e c2. pipeline c' = (Inr chain, c1) \<longrightarrow>
                  chain c1 u h = (Inl e, c2) \<longrightarrow>
                  snd (snd (main pipeline True u (c', s))) = s)"
    apply (rule exI [of _ h], rule exI [of _ ?p], rule exI [of _ ?g])
    apply (intro conjI)
           apply (rule h(1))
          apply (rule h(2))
         apply (rule h(3))
        apply (rule len)
       apply (rule refl)
      apply (rule refl)
     apply (rule ms)
    apply (rule ok)
    apply (rule ko)
    done
  show ?thesis
    by (rule conjI [OF A conjI [OF B C]])
qed

theorem transcript_lists_paired_witness:
  "session echo_pipeline [(False, []), (True, ''a''), (True, ''boom''), (True, []), (True, ''b'')]
       (0, initialize_session_state empty_session)
     = (3, \<lparr>history = Some [(''a'', ''re: a''), (''b'', ''re: b'')],
            generated = Some [greeting_generated, ''re: a'', ''re: b''],
            past = Some [greeting_past, ''a'', ''b'']\<rparr>)
   \<and> (\<exists>ms. (render_replies \<lparr>history = Some [(''a'', ''re: a''), (''b'', ''re: b'')],
            generated = Some [greeting_generated, ''re: a'', ''re: b''],
            past = Some [greeting_past, ''a'', ''b'']\<rparr> :: string error + message list)
          = Inr (Message greeting_past True ''0_user'' ''thumbs''
               # Message greeting_generated False ''0'' ''fun-emoji'' # ms) \<and> length ms = 4)
   \<and> snd (snd (main echo_pipeline True ''c''
         (3, \<lparr>history = Some [(''a'', ''re: a''), (''b'', ''re: b'')],
              generated = Some [greeting_generated, ''re: a'', ''re: b''],
              past = Some [greeting_past, ''a'', ''b'']\<rparr>)))
       = \<lparr>history = Some [(''a'', ''re: a''), (''b'', ''re: b''), (''c'', ''re: c'')],
          generated = Some [greeting_generated, ''re: a'', ''re: b'', ''re: c''],
          past = Some [greeting_past, ''a'', ''b'', ''c'']\<rparr>
   \<and> snd (snd (main echo_pipeline True ''boom''
         (3, \<lparr>history = Some [(''a'', ''re: a''), (''b'', ''re: b'')],
              generated = Some [greeting_generated, ''re: a'', ''re: b''],
              past = Some [greeting_past, ''a'', ''b'']\<rparr>)))
       = \<lparr>history = Some [(''a'', ''re: a''), (''b'', ''re: b'')],
          generated = Some [greeting_generated, ''re: a'', ''re: b''],
          past = Some [greeting_past, ''a'', ''b'']\<rparr>"
proof -
  let ?S = "\<lparr>history = Some [(''a'', ''re: a''), (''b'', ''re: b'')],
            generated = Some [greeting_generated, ''re: a'', ''re: b''],
            past = Some [greeting_past, ''a'', ''b'']\<rparr>"
  have run: "session echo_pipeline [(False, []), (True, ''a''), (True, ''boom''), (True, []), (True, ''b'')]
       (0, initialize_session_state empty_session) = (3, ?S)"
    by (simp add: main_def echo_pipeline_def moody_chain_def echo_chain_def failing_chain_def
        display_chat_history_def conversation_chat_def initialize_session_state_def
        empty_session_def Let_def)
  from transcript_lists_paired [OF run]
  obtain h p g ms where hist: "history ?S = Some h" and p: "past ?S = Some p" and g: "generated ?S = Some g"
    and ms: "(render_replies ?S :: string error + message list)
          = Inr (Message greeting_past True ''0_user'' ''thumbs''
               # Message greeting_generated False ''0'' ''fun-emoji'' # ms)" "length ms = 2 * length h"
    and ok: "\<forall>chain c1 u a c2. echo_pipeline 3 = (Inr chain, c1) \<longrightarrow> u \<noteq> [] \<longrightarrow>
                  chain c1 u h = (Inr a, c2) \<longrightarrow>
                  snd (snd (main echo_pipeline True u (3, ?S)))
                    = ?S\<lparr>history := Some (h @ [(u, a)]), past := Some (p @ [u]),
                        generated := Some (g @ [a])\<rparr>"
    and ko: "\<forall>chain c1 u e c2. echo_pipeline 3 = (Inr chain, c1) \<longrightarrow>
                  chain c1 u h = (Inl e, c2) \<longrightarrow>
                  snd (snd (main echo_pipeline True u (3, ?S))) = ?S"
    by (elim conjE exE) (rule that)
  from hist p g have hpg: "h = [(''a'', ''re: a''), (''b'', ''re: b'')]"
      "p = [greeting_past, ''a'', ''b'']" "g = [greeting_generated, ''re: a'', ''re: b'']"
    by simp_all
  from ms hpg have M: "\<exists>ms. (render_replies ?S :: string error + message list)
          = Inr (Message greeting_past True ''0_user'' ''thumbs''
               # Message greeting_generated False ''0'' ''fun-emoji'' # ms) \<and> length ms = 4"
    by simp
  from ok [rule_format, of moody_chain 3 "''c''" "''re: c''" 4] hpg
  have O: "snd (snd (main echo_pipeline True ''c'' (3, ?S)))
       = \<lparr>history = Some [(''a'', ''re: a''), (''b'', ''re: b''), (''c'', ''re: c'')],
          generated = Some [greeting_generated, ''re: a'', ''re: b'', ''re: c''],
          past = Some [greeting_past, ''a'', ''b'', ''c'']\<rparr>"
    by (simp add: echo_pipeline_def moody_chain_def echo_chain_def)
  from ko [rule_format, of moody_chain 3 "''boom''" "''GenerationError''" 4] hpg
  have K: "snd (snd (main echo_pipeline True ''boom'' (3, ?S))) = ?S"
    by (simp add: echo_pipeline_def moody_chain_def failing_chain_def)
  show ?thesis
    by (rule conjI [OF run conjI [OF M conjI [OF O K]]])
qed

end
